(* ===== verification/Prelude.thy ===== *)
theory Prelude
  imports Main "HOL-Library.Word"
begin

text \<open>
  Shared vocabulary of the model of \<^verbatim>\<open>src/src/formatter.h\<close>.
  The header works on two character types: the narrow \<^verbatim>\<open>char\<close> of
  \<^verbatim>\<open>std::string\<close> (8 bits, signed under MSVC and x86 GCC) and the wide
  \<^verbatim>\<open>wchar_t\<close> of \<^verbatim>\<open>std::wstring\<close> (16 bits unsigned on Windows, the
  platform of Mod Organizer 2; 32 bits on Linux).  A narrow character is an
  \<open>8 word\<close>, a wide one a \<open>'w word\<close> whose width stays a type parameter,
  so that every lemma says which widths it needs.  This theory holds the type
  names, the literal helpers used by the examples, the named collections and
  the lemmas on casts between widths that the components share.
\<close>

named_theorems cast_simps "equations on casts between the character widths"
named_theorems model_simps "evaluation equations of the model's operations"

type_synonym nchar = "8 word"
type_synonym nstring = "nchar list"
type_synonym 'w wstring = "'w word list"
type_synonym wchar_win = "16 word"

text \<open>
  String literals of the source language: \<open>narrow_lit ''abc''\<close> is the
  \<^verbatim>\<open>std::string\<close> \<^verbatim>\<open>"abc"\<close>, \<open>wide_lit ''abc''\<close> the \<^verbatim>\<open>std::wstring\<close>
  \<^verbatim>\<open>L"abc"\<close>; each character is stored as its code.
\<close>

definition narrow_lit :: "string \<Rightarrow> nstring" where
  "narrow_lit s = map (\<lambda>c. of_nat (of_char c)) s"

definition wide_lit :: "string \<Rightarrow> 'w::len wstring" where
  "wide_lit s = map (\<lambda>c. of_nat (of_char c)) s"

declare narrow_lit_def [model_simps] wide_lit_def [model_simps]

subsection \<open>Iterators\<close>

text \<open>An iterator into a container is its position \<open>i\<close>; the end iterator is
  position \<open>length c\<close>.  Dereferencing \<^verbatim>\<open>*it\<close> is \<open>deref c i\<close>:
  \<open>None\<close> stands for the undefined behaviour of dereferencing the end (or a
  position past it).\<close>

definition deref :: "'a list \<Rightarrow> nat \<Rightarrow> 'a option" where
  "deref c i = (if i < length c then Some (c ! i) else None)"

lemma deref_Some [simp]: "i < length c \<Longrightarrow> deref c i = Some (c ! i)"
  by (simp add: deref_def)

lemma deref_None [simp]: "length c \<le> i \<Longrightarrow> deref c i = None"
  by (simp add: deref_def)

subsection \<open>Signed narrow characters\<close>

text \<open>A signed 8-bit \<^verbatim>\<open>char\<close> reads as its unsigned code below 128 and as
  that code minus 256 from 128 on.\<close>

lemma sint_nchar [cast_simps]:
  "sint (c::nchar) = (if uint c < 128 then uint c else uint c - 256)"
proof -
  have lo: "- 128 \<le> sint c" using sint_ge [of c] by simp
  have hi: "sint c < 128" using sint_lt [of c] by simp
  have "uint c = sint c mod 256" by (simp add: uint_sint take_bit_eq_mod)
  with lo hi show ?thesis by presburger
qed

lemma pow2_len_ge_256:
  "8 \<le> LENGTH('w::len) \<Longrightarrow> (256::int) \<le> 2 ^ LENGTH('w)"
  using power_increasing [of 8 "LENGTH('w)" "2::int"] by simp

text \<open>Sign extension of a narrow character into a wider word, read as an
  unsigned code: the code is kept below 128 and moved up by
  \<open>2 ^ LENGTH('w) - 256\<close> from 128 on.\<close>

lemma uint_scast_nchar [cast_simps]:
  assumes "8 \<le> LENGTH('w::len)"
  shows "uint (scast (c::nchar) :: 'w word) =
    (if uint c < 128 then uint c else uint c + 2 ^ LENGTH('w) - 256)"
proof -
  have pw: "(256::int) \<le> 2 ^ LENGTH('w)"
    using assms by (rule pow2_len_ge_256)
  have u: "0 \<le> uint c" "uint c < 256" using uint_lt2p [of c] by simp_all
  have "uint (scast c :: 'w word) = sint c mod 2 ^ LENGTH('w)"
    by (simp only: scast_eq uint_word_of_int)
  also have "\<dots> = (if uint c < 128 then uint c else uint c + 2 ^ LENGTH('w) - 256)"
  proof (cases "uint c < 128")
    case True
    with u pw show ?thesis by (simp add: sint_nchar)
  next
    case False
    have "(uint c - 256 + 2 ^ LENGTH('w)) mod 2 ^ LENGTH('w) = uint c - 256 + 2 ^ LENGTH('w)"
      using False u pw by (intro mod_pos_pos_trivial) auto
    then have "(uint c - 256) mod 2 ^ LENGTH('w) = uint c - 256 + 2 ^ LENGTH('w)"
      by simp
    with False show ?thesis by (simp add: sint_nchar)
  qed
  finally show ?thesis .
qed

subsection \<open>Casts that lose nothing\<close>

lemma ucast_scast_up [cast_simps]:
  assumes "LENGTH('a::len) \<le> LENGTH('b::len)"
  shows "(ucast (scast w :: 'b word) :: 'a word) = w"
  using assms by (intro bit_word_eqI) (auto simp: bit_simps)

lemma ucast_ucast_up [cast_simps]:
  assumes "LENGTH('a::len) \<le> LENGTH('b::len)"
  shows "(ucast (ucast w :: 'b word) :: 'a word) = w"
  using assms by (simp add: ucast_up_ucast_id is_up)

end
