(* ===== verification/Widen.thy ===== *)
theory Widen
  imports Prelude
begin

text \<open>
  The reduction step of \<^verbatim>\<open>formatter<std::string, wchar_t>::format\<close>
  (\<^verbatim>\<open>src/src/formatter.h\<close>, lines 20--27): the narrow string is turned into
  a wide one by \<^verbatim>\<open>std::wstring(s.begin(), s.end())\<close>, which converts every
  \<^verbatim>\<open>char\<close> into one \<^verbatim>\<open>wchar_t\<close> by the C++ integral conversion.  The
  conversion of a signed \<^verbatim>\<open>char\<close> keeps its value modulo the width of
  \<^verbatim>\<open>wchar_t\<close>: it is the sign extension \<open>scast\<close>, not a zero extension,
  so the bytes 0x80--0xFF do not become U+0080--U+00FF.  The lemmas give the
  code units exactly, show that no information is lost (the round trip through
  a truncating cast) and that ASCII text is the only text whose codes survive.
\<close>

definition widen_char :: "nchar \<Rightarrow> 'w::len word" where
  "widen_char c = scast c"

definition widen :: "nstring \<Rightarrow> 'w::len wstring" where
  "widen s = map widen_char s"

declare widen_char_def [model_simps] widen_def [model_simps]

lemma widen_length [simp]: "length (widen s) = length s"
  by (simp add: widen_def)

lemma widen_nth [simp]: "i < length s \<Longrightarrow> widen s ! i = widen_char (s ! i)"
  by (simp add: widen_def)

lemma widen_append [simp]: "widen (s @ t) = widen s @ widen t"
  by (simp add: widen_def)

lemma widen_char_ascii:
  assumes "8 \<le> LENGTH('w::len)" and "uint c < 128"
  shows "uint (widen_char c :: 'w word) = uint c"
  using assms by (simp add: widen_char_def uint_scast_nchar)

text \<open>C6. Widening never loses a byte: truncating every code unit of the
  widened string back to 8 bits gives the original \<^verbatim>\<open>std::string\<close>,
  whatever the width of \<^verbatim>\<open>wchar_t\<close> (at least 8 bits).\<close>

theorem widen_roundtrip:
  assumes "8 \<le> LENGTH('w::len)"
  shows "map ucast (widen s :: 'w wstring) = s"
  using assms by (induction s) (simp_all add: widen_def widen_char_def ucast_scast_up)

theorem widen_roundtrip_witness:
  "8 \<le> LENGTH(16) \<and>
   map ucast (widen [0x41, 0xE9] :: wchar_win list) = [0x41, 0xE9 :: nchar]"
  using widen_roundtrip [where 'w = 16, of "[0x41, 0xE9]"] by simp

lemma widen_char_ascii_ucast:
  assumes "8 \<le> LENGTH('w::len)" and "uint c < 128"
  shows "(widen_char c :: 'w word) = ucast c"
proof -
  have "uint (ucast c :: 'w word) = uint c"
    using assms(1) by (simp add: uint_up_ucast is_up)
  then show ?thesis
    using widen_char_ascii [OF assms] by (simp add: word_uint_eq_iff)
qed

lemma widen_ascii_ucast:
  assumes "8 \<le> LENGTH('w::len)" and "\<forall>c\<in>set s. uint c < 128"
  shows "(widen s :: 'w wstring) = map ucast s"
  using assms by (simp add: widen_def widen_char_ascii_ucast)

text \<open>C5. The code unit produced for a byte: the byte's code below 128; from
  128 on, the sign-extended value, that is the code moved up by
  \<open>2 ^ LENGTH('w) - 256\<close> (0xE9 becomes U+FFE9 with a 16-bit
  \<^verbatim>\<open>wchar_t\<close>, not U+00E9).\<close>

theorem uint_widen_char:
  assumes "8 \<le> LENGTH('w::len)"
  shows "uint (widen_char c :: 'w word) =
    (if uint c < 128 then uint c else uint c + 2 ^ LENGTH('w) - 256)"
  using assms by (simp add: widen_char_def uint_scast_nchar)

theorem uint_widen_char_witness:
  "8 \<le> LENGTH(16) \<and> uint (widen_char (0xE9 :: nchar) :: wchar_win) = 0xFFE9"
  using uint_widen_char [where 'w = 16, of "0xE9"] by simp

text \<open>C11. The widened string has the same code values as the bytes exactly
  when every byte is ASCII, for any \<^verbatim>\<open>wchar_t\<close> wider than
  \<^verbatim>\<open>char\<close>.\<close>

theorem widen_codes_iff:
  assumes "8 < LENGTH('w::len)"
  shows "map uint (widen s :: 'w wstring) = map uint s \<longleftrightarrow> (\<forall>c\<in>set s. uint c < 128)"
proof -
  have pw: "(256::int) < 2 ^ LENGTH('w)"
    using power_strict_increasing [of 8 "LENGTH('w)" "2::int"] assms by simp
  have "uint (widen_char c :: 'w word) = uint c \<longleftrightarrow> uint c < 128" for c
    using assms pw by (simp add: widen_char_def uint_scast_nchar)
  then show ?thesis by (simp add: widen_def)
qed

theorem widen_codes_iff_witness:
  "8 < LENGTH(16) \<and>
   map uint (widen [0x61, 0x2F] :: wchar_win list) = map uint [0x61, 0x2F :: nchar] \<and>
   map uint (widen [0x61, 0xE9] :: wchar_win list) \<noteq> map uint [0x61, 0xE9 :: nchar]"
proof -
  have a: "map uint (widen [0x61, 0x2F] :: wchar_win list) = map uint [0x61, 0x2F :: nchar]"
    using widen_codes_iff [where 'w = 16, of "[0x61, 0x2F]"] by simp
  have b: "map uint (widen [0x61, 0xE9] :: wchar_win list) \<noteq> map uint [0x61, 0xE9 :: nchar]"
    using widen_codes_iff [where 'w = 16, of "[0x61, 0xE9]"] by simp
  from a b show ?thesis by simp
qed

text \<open>C16. Every code unit of a widened string is the image of a signed
  \<^verbatim>\<open>char\<close>: an ASCII code below 128 or one of the top 128 values of
  \<^verbatim>\<open>wchar_t\<close>; the codes in between (U+0080 to U+FF7F on Windows) never
  occur.\<close>

theorem widen_range:
  assumes "8 \<le> LENGTH('w::len)" and "c \<in> set (widen s :: 'w wstring)"
  shows "uint c < 128 \<or> 2 ^ LENGTH('w) - 128 \<le> uint c"
proof -
  from assms(2) obtain b where c: "c = widen_char b" by (auto simp: widen_def)
  have "uint b < 256" using uint_lt2p [of b] by simp
  then show ?thesis
    using assms(1) by (simp add: c widen_char_def uint_scast_nchar)
qed

theorem widen_range_witness:
  "8 \<le> LENGTH(16) \<and> (0xFFE9 :: wchar_win) \<in> set (widen [0x41, 0xE9]) \<and>
   (uint (0xFFE9 :: wchar_win) < 128 \<or> 2 ^ LENGTH(16) - 128 \<le> uint (0xFFE9 :: wchar_win))"
proof -
  have m: "(0xFFE9 :: wchar_win) \<in> set (widen [0x41, 0xE9])"
    by (simp add: widen_def widen_char_def)
  show ?thesis
    using m widen_range [where 'w = 16, OF _ m] by simp
qed

end
