(* ===== verification/Join.thy ===== *)
theory Join
  imports Prelude
begin

text \<open>
  \<^verbatim>\<open>NArchive::join\<close> (\<^verbatim>\<open>src/src/formatter.h\<close>, lines 69--82).  The
  container \<^verbatim>\<open>C\<close> is modelled by the list of its elements in iteration
  order; the strings are lists over any character type (the source's
  \<^verbatim>\<open>std::wstring\<close> is the instance \<open>'w word list\<close>).  The loop
  \<^verbatim>\<open>for (; begin != end; ++begin) r += *begin + sep;\<close> is the tail-recursive
  \<open>join_loop\<close> over the accumulator \<open>r\<close>, started with the first element.

  Two specifications are stated beside it: \<open>spec_join\<close>, the contract
  written in the specification (the separator after every element), and
  \<open>between_join\<close>, the conventional join (the separator only between
  elements).  The lemmas give the closed form of the code, show exactly when it
  meets either contract, and give its length.

  \<open>join_iter\<close> is the same function at the level of the iterators the
  source uses: \<^verbatim>\<open>begin == end\<close> is the early return, \<^verbatim>\<open>*begin++\<close> a
  checked dereference, and the loop \<^verbatim>\<open>for (; begin != end; ++begin)\<close> the
  partial function \<open>join_for\<close> (\<open>partial_function (option)\<close>), whose
  guard \<^verbatim>\<open>!=\<close> would never fail from a position past the end.  \<open>None\<close>
  is undefined behaviour or a loop that does not end.  The lemmas show that
  the code returns, for every container, the value of \<open>join\<close>.

  \<open>join_step\<close> and \<open>join_reach\<close> give the loop as a state machine over
  the pair of accumulator and position: the accumulator of every reachable
  state is the join of the prefix visited (by rule induction).
  \<open>join_checked\<close> adds the \<^verbatim>\<open>std::length_error\<close> of the string
  operations.
\<close>

fun join_loop :: "'a list \<Rightarrow> 'a list list \<Rightarrow> 'a list \<Rightarrow> 'a list" where
  "join_loop r [] sep = r"
| "join_loop r (e # es) sep = join_loop (r @ (e @ sep)) es sep"

definition join :: "'a list list \<Rightarrow> 'a list \<Rightarrow> 'a list" where
  "join c sep = (case c of [] \<Rightarrow> [] | e # es \<Rightarrow> join_loop e es sep)"

definition spec_join :: "'a list list \<Rightarrow> 'a list \<Rightarrow> 'a list" where
  "spec_join c sep = concat (map (\<lambda>e. e @ sep) c)"

fun between_join :: "'a list list \<Rightarrow> 'a list \<Rightarrow> 'a list" where
  "between_join [] sep = []"
| "between_join [e] sep = e"
| "between_join (e # es) sep = e @ sep @ between_join es sep"

partial_function (option) join_for ::
  "'a list list \<Rightarrow> 'a list \<Rightarrow> 'a list \<Rightarrow> nat \<Rightarrow> 'a list option" where
  "join_for c sep r i =
     (if i \<noteq> length c
      then (case deref c i of None \<Rightarrow> None | Some e \<Rightarrow> join_for c sep (r @ (e @ sep)) (Suc i))
      else Some r)"

definition join_iter :: "'a list list \<Rightarrow> 'a list \<Rightarrow> 'a list option" where
  "join_iter c sep =
     (if 0 = length c then Some []
      else (case deref c 0 of None \<Rightarrow> None | Some e \<Rightarrow> join_for c sep e 1))"

text \<open>The same loop as a state machine: a state is the accumulator \<^verbatim>\<open>r\<close>
  and the position of \<^verbatim>\<open>begin\<close>; \<open>join_step\<close> is one iteration of the
  \<^verbatim>\<open>for\<close> loop (guard \<^verbatim>\<open>begin != end\<close>, body \<^verbatim>\<open>r += *begin + sep\<close>,
  increment), and \<open>join_reach\<close> the states reachable from the one after
  \<^verbatim>\<open>r = *begin++\<close>, which the test \<^verbatim>\<open>begin == end\<close> guards.\<close>

type_synonym 'a join_state = "'a list \<times> nat"

inductive join_step :: "'a list list \<Rightarrow> 'a list \<Rightarrow> 'a join_state \<Rightarrow> 'a join_state \<Rightarrow> bool"
  for c :: "'a list list" and sep :: "'a list" where
  next_elem: "i \<noteq> length c \<Longrightarrow> deref c i = Some e \<Longrightarrow> join_step c sep (r, i) (r @ (e @ sep), Suc i)"

inductive join_reach :: "'a list list \<Rightarrow> 'a list \<Rightarrow> 'a join_state \<Rightarrow> bool"
  for c :: "'a list list" and sep :: "'a list" where
  start: "0 \<noteq> length c \<Longrightarrow> deref c 0 = Some e \<Longrightarrow> join_reach c sep (e, 1)"
| step: "join_reach c sep s \<Longrightarrow> join_step c sep s t \<Longrightarrow> join_reach c sep t"

text \<open>The string operations of the loop can fail: \<^verbatim>\<open>std::basic_string\<close>
  throws \<^verbatim>\<open>std::length_error\<close> when a result would be longer than
  \<^verbatim>\<open>max_size()\<close>, here the parameter \<open>ms\<close>.  The body
  \<^verbatim>\<open>r += *begin + sep\<close> builds the temporary \<^verbatim>\<open>*begin + sep\<close>
  (\<^verbatim>\<open>operator+\<close>, first check) and appends it to \<^verbatim>\<open>r\<close>
  (\<^verbatim>\<open>operator+=\<close>, second check); the copy \<^verbatim>\<open>r = *begin++\<close> of an existing
  string cannot fail.  \<open>join_checked\<close> is \<^verbatim>\<open>join\<close> with these exceptions
  as the left value of a sum.\<close>

datatype string_error = LengthError

fun join_loop_checked :: "nat \<Rightarrow> 'a list \<Rightarrow> 'a list list \<Rightarrow> 'a list \<Rightarrow> string_error + 'a list" where
  "join_loop_checked ms r [] sep = Inr r"
| "join_loop_checked ms r (e # es) sep =
     (if ms < length e + length sep then Inl LengthError
      else if ms < length r + (length e + length sep) then Inl LengthError
      else join_loop_checked ms (r @ (e @ sep)) es sep)"

definition join_checked :: "nat \<Rightarrow> 'a list list \<Rightarrow> 'a list \<Rightarrow> string_error + 'a list" where
  "join_checked ms c sep = (case c of [] \<Rightarrow> Inr [] | e # es \<Rightarrow> join_loop_checked ms e es sep)"

declare join_def [model_simps] spec_join_def [model_simps] join_iter_def [model_simps]

subsection \<open>The loop\<close>

lemma join_loop_eq: "join_loop r es sep = r @ spec_join es sep"
  by (induction es arbitrary: r) (simp_all add: spec_join_def)

lemma spec_join_Cons [simp]: "spec_join (e # es) sep = e @ sep @ spec_join es sep"
  by (simp add: spec_join_def)

lemma spec_join_Nil [simp]: "spec_join [] sep = []"
  by (simp add: spec_join_def)

lemma join_Nil [simp]: "join [] sep = []"
  by (simp add: join_def)

lemma join_Cons: "join (e # es) sep = e @ spec_join es sep"
  by (simp add: join_def join_loop_eq)

lemma between_join_snoc_sep:
  "c \<noteq> [] \<Longrightarrow> between_join c sep @ sep = spec_join c sep"
  by (induction c sep rule: between_join.induct) simp_all

lemma length_spec_join:
  "length (spec_join c sep) = sum_list (map length c) + length c * length sep"
  by (induction c) simp_all

subsection \<open>Behaviour of the code\<close>

text \<open>C1. Closed form of \<^verbatim>\<open>join\<close>: an empty container gives the empty
  string; otherwise the first element is followed, for every later element,
  by that element and then the separator.\<close>

theorem join_closed_form:
  "join c sep = (case c of [] \<Rightarrow> [] | e # es \<Rightarrow> e @ concat (map (\<lambda>x. x @ sep) es))"
  by (cases c) (simp_all add: join_Cons spec_join_def)

text \<open>C2. The code meets the contract of the specification (separator after
  every element, the last included) exactly when the container is empty or
  the separator is empty: for any non-empty container and separator the
  first separator is missing.\<close>

theorem join_eq_spec_join_iff:
  "join c sep = spec_join c sep \<longleftrightarrow> c = [] \<or> sep = []"
proof (cases c)
  case Nil
  then show ?thesis by simp
next
  case (Cons e es)
  have "join c sep = spec_join c sep \<longleftrightarrow> spec_join es sep = sep @ spec_join es sep"
    using Cons by (simp add: join_Cons)
  also have "\<dots> \<longleftrightarrow> sep = []"
    by (metis append_Nil append_self_conv2)
  finally show ?thesis using Cons by simp
qed

text \<open>C8. With two elements or more, the code fuses the first two elements
  and then behaves as the conventional join followed by one trailing
  separator.\<close>

theorem join_fuses_first_two:
  "join (x # y # zs) sep = between_join ((x @ y) # zs) sep @ sep"
  by (simp add: join_Cons between_join_snoc_sep)

text \<open>C9. Length of the result: the lengths of all elements plus one
  separator for each element after the first.\<close>

theorem join_length:
  "length (join c sep) = sum_list (map length c) + (length c - 1) * length sep"
  by (cases c) (simp_all add: join_Cons length_spec_join)

subsection \<open>The iterator loop\<close>

text \<open>C14. From any position up to the end, the \<^verbatim>\<open>for\<close> loop of
  \<^verbatim>\<open>join\<close> returns: it appends each remaining element followed by the
  separator to the accumulator.\<close>

theorem join_for_returns:
  assumes "i \<le> length c"
  shows "join_for c sep r i = Some (r @ spec_join (drop i c) sep)"
  using assms
proof (induction "length c - i" arbitrary: r i)
  case 0
  then have "i = length c" by simp
  then show ?case by (simp add: join_for.simps)
next
  case (Suc n)
  then have i: "i < length c" by simp
  then have "join_for c sep r i = join_for c sep (r @ (c ! i @ sep)) (Suc i)"
    by (simp add: join_for.simps [of c sep r i])
  also have "\<dots> = Some ((r @ (c ! i @ sep)) @ spec_join (drop (Suc i) c) sep)"
    using Suc.hyps(2) i by (intro Suc.hyps(1)) simp_all
  also have "\<dots> = Some (r @ spec_join (drop i c) sep)"
    using i by (simp add: Cons_nth_drop_Suc [symmetric])
  finally show ?case .
qed

theorem join_for_returns_witness:
  "(1::nat) \<le> length [''a'', ''b''] \<and>
   join_for [''a'', ''b''] '', '' ''a'' 1 = Some ''ab, ''"
  using join_for_returns [of 1 "[''a'', ''b'']" "'', ''" "''a''"] by simp

text \<open>C15. The iterator-level code never dereferences the end iterator and
  always returns, for every container, the empty one included (the
  \<^verbatim>\<open>begin == end\<close> test guards the first dereference), and what it returns
  is \<open>join\<close>.\<close>

theorem join_iter_eq_join: "join_iter c sep = Some (join c sep)"
proof -
  have loop: "join_for c sep r i = Some (join_loop r (drop i c) sep)" if "i \<le> length c" for r i
    using that
  proof (induction "length c - i" arbitrary: r i)
    case 0
    then show ?case by (simp add: join_for.simps)
  next
    case (Suc n)
    then have i: "i < length c" by simp
    then have "join_for c sep r i = join_for c sep (r @ (c ! i @ sep)) (Suc i)"
      by (simp add: join_for.simps [of c sep r i])
    also have "\<dots> = Some (join_loop (r @ (c ! i @ sep)) (drop (Suc i) c) sep)"
      using Suc.hyps(2) i by (intro Suc.hyps(1)) simp_all
    finally show ?case
      using i by (simp add: Cons_nth_drop_Suc [symmetric])
  qed
  show ?thesis
  proof (cases c)
    case Nil
    then show ?thesis by (simp add: join_iter_def join_def)
  next
    case (Cons e es)
    with loop [of 1 e] show ?thesis by (simp add: join_iter_def join_def)
  qed
qed

subsection \<open>The loop as a state machine\<close>

inductive_cases join_stepE: "join_step c sep (r, i) t"

lemma spec_join_append [simp]: "spec_join (xs @ ys) sep = spec_join xs sep @ spec_join ys sep"
  by (simp add: spec_join_def)

lemma join_snoc: "c \<noteq> [] \<Longrightarrow> join (c @ [e]) sep = join c sep @ e @ sep"
  by (cases c) (simp_all add: join_Cons)

text \<open>C18. Every state the loop of \<^verbatim>\<open>join\<close> reaches, from
  \<^verbatim>\<open>r = *begin++\<close> on, has its iterator strictly past the first element and
  at most at the end, and its accumulator \<^verbatim>\<open>r\<close> equal to the result of
  \<^verbatim>\<open>join\<close> on the elements visited so far.\<close>

theorem join_reach_inv:
  assumes "join_reach c sep (r, i)"
  shows "1 \<le> i \<and> i \<le> length c \<and> r = join (take i c) sep"
proof -
  have "1 \<le> snd s \<and> snd s \<le> length c \<and> fst s = join (take (snd s) c) sep"
    if "join_reach c sep s" for s
    using that
  proof (induction rule: join_reach.induct)
    case (start e)
    then show ?case by (cases c) (simp_all add: join_def)
  next
    case (step s t)
    obtain r0 i0 where s: "s = (r0, i0)" by (cases s)
    with step.hyps(2) obtain e where "i0 \<noteq> length c" "deref c i0 = Some e"
      and "t = (r0 @ (e @ sep), Suc i0)"
      by (auto elim: join_stepE)
    moreover from step.IH s have "1 \<le> i0" "r0 = join (take i0 c) sep" by simp_all
    moreover from calculation have "i0 < length c" "take i0 c \<noteq> []"
      by (auto simp: deref_def split: if_splits)
    ultimately show ?case
      using step.IH s by (auto simp: take_Suc_conv_app_nth join_snoc deref_def)
  qed
  from this [OF assms] show ?thesis by simp
qed

theorem join_reach_inv_witness:
  "join_reach [''a'', ''b''] '', '' (''ab, '', 2) \<and>
   (1 \<le> (2::nat) \<and> 2 \<le> length [''a'', ''b''] \<and> ''ab, '' = join (take 2 [''a'', ''b'']) '', '')"
proof -
  have r: "join_reach [''a'', ''b''] '', '' (''ab, '', 2)"
  proof (rule join_reach.step)
    show "join_reach [''a'', ''b''] '', '' (''a'', 1)"
      by (rule join_reach.start) simp_all
    show "join_step [''a'', ''b''] '', '' (''a'', 1) (''ab, '', 2)"
      using join_step.next_elem [of 1 "[''a'', ''b'']" "''b''" "'', ''" "''a''"] by (simp add: numeral_2_eq_2)
  qed
  show ?thesis using r join_reach_inv [OF r] by simp
qed

subsection \<open>Length errors\<close>

text \<open>C12. When every element fits in a \<^verbatim>\<open>std::wstring\<close>, \<^verbatim>\<open>join\<close>
  throws \<^verbatim>\<open>std::length_error\<close> exactly when its result would be longer than
  \<^verbatim>\<open>max_size()\<close>, and otherwise returns the result of \<open>join\<close>: no
  intermediate string of the loop is longer than the result.\<close>

theorem join_checked_length_error:
  assumes "\<forall>e\<in>set c. length e \<le> ms"
  shows "join_checked ms c sep =
    (if length (join c sep) \<le> ms then Inr (join c sep) else Inl LengthError)"
proof -
  have loop: "join_loop_checked ms r es sep =
      (if length (r @ spec_join es sep) \<le> ms then Inr (r @ spec_join es sep) else Inl LengthError)"
    if "length r \<le> ms" for r es
    using that by (induction es arbitrary: r) auto
  show ?thesis
  proof (cases c)
    case Nil
    then show ?thesis by (simp add: join_checked_def)
  next
    case (Cons e es)
    with assms have "length e \<le> ms" by simp
    with Cons show ?thesis by (simp add: join_checked_def join_Cons loop)
  qed
qed

theorem join_checked_length_error_witness:
  "join_checked 7 [''a'', ''b'', ''c''] '', '' = Inr ''ab, c, '' \<and>
   join_checked 6 [''a'', ''b'', ''c''] '', '' = Inl LengthError"
proof -
  have a: "join_checked 7 [''a'', ''b'', ''c''] '', '' = Inr ''ab, c, ''"
    using join_checked_length_error [of "[''a'', ''b'', ''c'']" 7 "'', ''"] by (simp add: join_def)
  have b: "join_checked 6 [''a'', ''b'', ''c''] '', '' = Inl LengthError"
    using join_checked_length_error [of "[''a'', ''b'', ''c'']" 6 "'', ''"] by (simp add: join_def)
  from a b show ?thesis by simp
qed

end
