(* ===== verification/Towlower.thy ===== *)
theory Towlower
  imports Prelude
begin

text \<open>
  \<^verbatim>\<open>NArchive::towlower\<close> (\<^verbatim>\<open>src/src/formatter.h\<close>, lines 91--95).  The
  string is taken by value and rewritten in place by
  \<^verbatim>\<open>std::transform(begin(s), end(s), begin(s), f)\<close>, where \<^verbatim>\<open>f\<close> passes the
  \<^verbatim>\<open>wchar_t\<close> to the C library's \<^verbatim>\<open>::towlower\<close> (an implicit conversion to
  \<^verbatim>\<open>wint_t\<close>) and casts the result back with \<^verbatim>\<open>static_cast<wchar_t>\<close>.
  \<^verbatim>\<open>::towlower\<close> depends on the process locale and is not part of this
  repository: it is the parameter \<open>lower\<close> on \<open>'i word\<close> (\<^verbatim>\<open>wint_t\<close>,
  as wide as \<^verbatim>\<open>wchar_t\<close> on Windows and on Linux), and both conversions are
  \<open>ucast\<close>.  \<open>c_towlower\<close> is its behaviour in the "C" locale, where only
  the basic Latin capitals are mapped; \<open>latin1_towlower\<close> is a Unicode
  locale on the first 256 code points, which also maps the Latin-1 capitals.

  \<open>transform_loop\<close> is the index loop of \<^verbatim>\<open>std::transform\<close> with the
  output range equal to the input range: step \<open>i\<close> reads \<open>s ! i\<close> and
  writes its image at the same index.  Its termination is proved by the
  measure \<open>length s - i\<close>.
\<close>

definition towlower_char :: "('i::len word \<Rightarrow> 'i word) \<Rightarrow> 'w::len word \<Rightarrow> 'w word" where
  "towlower_char lower c = ucast (lower (ucast c))"

function transform_loop :: "('a \<Rightarrow> 'a) \<Rightarrow> nat \<Rightarrow> 'a list \<Rightarrow> 'a list" where
  "transform_loop f i s =
     (if i < length s then transform_loop f (Suc i) (s[i := f (s ! i)]) else s)"
  by pat_completeness auto
termination
  by (relation "measure (\<lambda>(f, i, s). length s - i)") auto

declare transform_loop.simps [simp del]

definition towlower :: "('i::len word \<Rightarrow> 'i word) \<Rightarrow> 'w::len wstring \<Rightarrow> 'w wstring" where
  "towlower lower s = transform_loop (towlower_char lower) 0 s"

definition c_towlower :: "'i::len word \<Rightarrow> 'i word" where
  "c_towlower c = (if 0x41 \<le> c \<and> c \<le> 0x5A then c + 0x20 else c)"

text \<open>\<open>latin1_towlower\<close> is \<^verbatim>\<open>::towlower\<close> of a Unicode locale on the
  first 256 code points: the basic Latin capitals and the Latin-1 capitals
  U+00C0--U+00DE except U+00D7 are mapped 0x20 up, and no other code point
  below U+0100 and none of U+FF80--U+FFFF is changed.\<close>

definition latin1_towlower :: "'i::len word \<Rightarrow> 'i word" where
  "latin1_towlower c =
     (if (0x41 \<le> c \<and> c \<le> 0x5A) \<or> (0xC0 \<le> c \<and> c \<le> 0xDE \<and> c \<noteq> 0xD7) then c + 0x20 else c)"

declare towlower_char_def [model_simps] c_towlower_def [model_simps] latin1_towlower_def [model_simps]

subsection \<open>The in-place loop\<close>

text \<open>After the steps below \<open>i\<close> the prefix has been mapped and the rest is
  untouched: the element read at step \<open>i\<close> is still the input's.\<close>

lemma transform_loop_eq:
  "i \<le> length s \<Longrightarrow> transform_loop f i s = take i s @ map f (drop i s)"
proof (induction f i s rule: transform_loop.induct)
  case (1 f i s)
  show ?case
  proof (cases "i < length s")
    case True
    then have "transform_loop f i s = transform_loop f (Suc i) (s[i := f (s ! i)])"
      by (simp add: transform_loop.simps [of f i s])
    also have "\<dots> = take (Suc i) (s[i := f (s ! i)]) @ map f (drop (Suc i) (s[i := f (s ! i)]))"
      using True by (intro "1.IH") simp_all
    also have "\<dots> = take i s @ map f (drop i s)"
      using True by (simp add: take_Suc_conv_app_nth Cons_nth_drop_Suc [symmetric])
    finally show ?thesis .
  next
    case False
    then have "transform_loop f i s = s"
      by (subst transform_loop.simps) simp
    with False "1.prems" show ?thesis by simp
  qed
qed

lemma transform_loop_from_start [simp]: "transform_loop f 0 s = map f s"
  using transform_loop_eq [of 0 s f] by simp

subsection \<open>Behaviour of the code\<close>

text \<open>C4. The in-place \<^verbatim>\<open>std::transform\<close> loop computes the character-wise
  map of the conversion: \<^verbatim>\<open>towlower\<close> is \<open>map\<close> of the per-character
  function over the input.\<close>

theorem towlower_eq_map:
  "towlower lower s = map (towlower_char lower) s"
  by (simp add: towlower_def)

lemma towlower_length [simp]: "length (towlower lower s) = length s"
  by (simp add: towlower_def)

lemma towlower_nth:
  "i < length s \<Longrightarrow> towlower lower s ! i = towlower_char lower (s ! i)"
  by (simp add: towlower_def)

end
