(* ===== verification/Adapters.thy ===== *)
theory Adapters
  imports Widen
begin

text \<open>
  The four specialisations of \<^verbatim>\<open>fmt::formatter<T, wchar_t>\<close> in
  \<^verbatim>\<open>src/src/formatter.h\<close> (lines 17--56).  Each inherits the parser and the
  parsed format specification of its base formatter and overrides
  \<^verbatim>\<open>format(value, ctx)\<close> by reducing the value and calling the base's
  \<^verbatim>\<open>format\<close> with the same context.

  The base renderer \<^verbatim>\<open>formatter<std::wstring, wchar_t>::format\<close> belongs to
  the fmt library, not to this repository.  It is the parameter \<open>base\<close> of
  type \<open>('f, 'w, 'ctx, 'r) wformatter\<close>: \<open>'f\<close> is the base formatter's
  parsed state, \<open>'ctx\<close> the format context and \<open>'r\<close> what the call gives
  back (the output iterator, or an error the library raises: the adapters
  catch nothing, so an error is any value of \<open>'r\<close> and reaches the caller
  unchanged).  The library's value types are records of what the adapters
  observe: \<^verbatim>\<open>std::exception::what()\<close>, \<^verbatim>\<open>std::error_code::message()\<close>
  (the category's message for the value) and
  \<^verbatim>\<open>std::filesystem::path::native()\<close>, a wide string on Windows.

  \<open>fmt_arg\<close> lists the types the header makes formattable and
  \<open>format_arg\<close> is the dispatch the library performs on them; \<open>arg_text\<close>
  is the abstract specification, the wide text a value stands for.
\<close>

type_synonym ('f, 'w, 'ctx, 'r) wformatter = "'f \<Rightarrow> 'w wstring \<Rightarrow> 'ctx \<Rightarrow> 'r"

record exception =
  what :: nstring

record error_category =
  category_name :: nstring
  category_message :: "int \<Rightarrow> nstring"

record error_code =
  ec_value :: int
  ec_category :: error_category

definition message :: "error_code \<Rightarrow> nstring" where
  "message ec = category_message (ec_category ec) (ec_value ec)"

record 'c fs_path =
  native :: "'c list"

subsection \<open>The adapters\<close>

definition format_string ::
  "('f, 'w::len, 'ctx, 'r) wformatter \<Rightarrow> 'f \<Rightarrow> nstring \<Rightarrow> 'ctx \<Rightarrow> 'r" where
  "format_string base f s ctx = base f (widen s) ctx"

definition format_exception ::
  "('f, 'w::len, 'ctx, 'r) wformatter \<Rightarrow> 'f \<Rightarrow> exception \<Rightarrow> 'ctx \<Rightarrow> 'r" where
  "format_exception base f ex ctx = format_string base f (what ex) ctx"

definition format_error_code ::
  "('f, 'w::len, 'ctx, 'r) wformatter \<Rightarrow> 'f \<Rightarrow> error_code \<Rightarrow> 'ctx \<Rightarrow> 'r" where
  "format_error_code base f ec ctx = format_string base f (message ec) ctx"

definition format_path ::
  "('f, 'w::len, 'ctx, 'r) wformatter \<Rightarrow> 'f \<Rightarrow> 'w word fs_path \<Rightarrow> 'ctx \<Rightarrow> 'r" where
  "format_path base f p ctx = base f (native p) ctx"

datatype 'c fmt_arg =
    WStringArg "'c list"
  | StringArg nstring
  | ExceptionArg exception
  | ErrorCodeArg error_code
  | PathArg "'c fs_path"

fun format_arg ::
  "('f, 'w::len, 'ctx, 'r) wformatter \<Rightarrow> 'f \<Rightarrow> 'w word fmt_arg \<Rightarrow> 'ctx \<Rightarrow> 'r" where
  "format_arg base f (WStringArg s) ctx = base f s ctx"
| "format_arg base f (StringArg s) ctx = format_string base f s ctx"
| "format_arg base f (ExceptionArg ex) ctx = format_exception base f ex ctx"
| "format_arg base f (ErrorCodeArg ec) ctx = format_error_code base f ec ctx"
| "format_arg base f (PathArg p) ctx = format_path base f p ctx"

fun arg_text :: "'w::len word fmt_arg \<Rightarrow> 'w wstring" where
  "arg_text (WStringArg s) = s"
| "arg_text (StringArg s) = widen s"
| "arg_text (ExceptionArg ex) = widen (what ex)"
| "arg_text (ErrorCodeArg ec) = widen (message ec)"
| "arg_text (PathArg p) = native p"

lemmas adapter_defs =
  format_string_def format_exception_def format_error_code_def format_path_def

declare adapter_defs [model_simps]

subsection \<open>Delegation\<close>

text \<open>C3. Every value the header makes formattable is rendered by the base
  wide-string renderer, with the same parsed specification and the same
  context, on the text the value stands for: the adapters add no behaviour of
  their own and pass the base's result, errors included, back unchanged.\<close>

theorem format_arg_refines:
  "format_arg base f a ctx = base f (arg_text a) ctx"
  by (cases a) (simp_all add: adapter_defs)

end
