(* ===== verification/Fmt_Engine.thy ===== *)
theory Fmt_Engine
  imports Prelude
begin

text \<open>
  A reference instance of the external base renderer: the fmt library's
  writing of a wide string under a parsed replacement field
  \<^verbatim>\<open>{:[fill]align[width][.precision]}\<close>.  This is library code, not code
  of this repository; it is here so that the adapters can be run on concrete
  values and their output compared with the specification's examples.  It
  follows fmt's \<^verbatim>\<open>write(out, basic_string_view<Char>, specs)\<close> and
  \<^verbatim>\<open>write_padded\<close> for \<^verbatim>\<open>wchar_t\<close>, where the display width of a string is
  its number of code units: the precision cuts the string, the width pads it
  with the fill character, strings align left by default, \<^verbatim>\<open>^\<close> puts the
  smaller half of the padding on the left.  The debug presentation
  \<^verbatim>\<open>{:?}\<close> is not modelled.  The format context is the
  output buffer, to which a call appends.
\<close>

datatype align = AlignNone | AlignLeft | AlignRight | AlignCenter

record 'c format_specs =
  spec_width :: nat
  spec_precision :: int
  spec_fill :: 'c
  spec_align :: align

definition default_specs :: "'w::len word format_specs" where
  "default_specs = \<lparr>spec_width = 0, spec_precision = -1, spec_fill = 0x20, spec_align = AlignNone\<rparr>"

definition shown_size :: "'w::len word format_specs \<Rightarrow> 'w wstring \<Rightarrow> nat" where
  "shown_size sp s =
     (if 0 \<le> spec_precision sp \<and> nat (spec_precision sp) < length s
      then nat (spec_precision sp) else length s)"

definition left_padding :: "align \<Rightarrow> nat \<Rightarrow> nat" where
  "left_padding a padding =
     (case a of AlignRight \<Rightarrow> padding | AlignCenter \<Rightarrow> padding div 2 | _ \<Rightarrow> 0)"

definition fmt_write_string :: "'w::len word format_specs \<Rightarrow> 'w wstring \<Rightarrow> 'w wstring \<Rightarrow> 'w wstring" where
  "fmt_write_string sp s out =
     (let n = shown_size sp s;
          padding = spec_width sp - n;
          l = left_padding (spec_align sp) padding
      in out @ replicate l (spec_fill sp) @ take n s @ replicate (padding - l) (spec_fill sp))"

declare default_specs_def [model_simps] shown_size_def [model_simps]
  left_padding_def [model_simps] fmt_write_string_def [model_simps]

subsection \<open>Properties of the reference renderer\<close>

lemma shown_size_le: "shown_size sp s \<le> length s"
  by (simp add: shown_size_def)

lemma left_padding_le: "left_padding a p \<le> p"
  by (cases a) (simp_all add: left_padding_def)

lemma fmt_write_default [simp]: "fmt_write_string default_specs s out = out @ s"
  by (simp add: fmt_write_string_def default_specs_def shown_size_def left_padding_def)

lemma fmt_write_length:
  "length (fmt_write_string sp s out) = length out + max (spec_width sp) (shown_size sp s)"
proof -
  have "left_padding (spec_align sp) (spec_width sp - shown_size sp s) \<le> spec_width sp - shown_size sp s"
    by (rule left_padding_le)
  then show ?thesis
    using shown_size_le [of sp s] by (simp add: fmt_write_string_def Let_def)
qed

lemma fmt_write_no_width:
  "spec_width sp \<le> shown_size sp s \<Longrightarrow> fmt_write_string sp s out = out @ take (shown_size sp s) s"
  by (simp add: fmt_write_string_def left_padding_def split: align.split)

end
