(* ===== verification/Spec2Isabelle.thy ===== *)
theory Spec2Isabelle
  imports Widen Join Towlower Adapters Fmt_Engine
begin

text \<open>
  \<^bold>\<open>A verified model of \<^verbatim>\<open>src/src/formatter.h\<close> (modorganizer-archive).\<close>

  \<^bold>\<open>The program.\<close> The header has two independent parts.
  \<^item> The adapter layer (namespace \<^verbatim>\<open>fmt\<close>, lines 17--56) makes four types
    formattable as wide text: \<^verbatim>\<open>std::string\<close> (widened byte by byte into a
    \<^verbatim>\<open>std::wstring\<close>), \<^verbatim>\<open>std::exception\<close> (its \<^verbatim>\<open>what()\<close>, through the
    string adapter), \<^verbatim>\<open>std::error_code\<close> (its \<^verbatim>\<open>message()\<close>, through the
    string adapter) and \<^verbatim>\<open>std::filesystem::path\<close> (its \<^verbatim>\<open>native()\<close> wide
    string).  Each adapter reduces its value and calls the fmt library's
    \<^verbatim>\<open>formatter<std::wstring, wchar_t>::format\<close> with the same context.
  \<^item> The string utilities (namespace \<^verbatim>\<open>NArchive\<close>): \<^verbatim>\<open>join\<close>
    (lines 69--82) and \<^verbatim>\<open>towlower\<close> (lines 91--95).
  The two parts share no state; no operation has side effects beyond the
  output written by the fmt library.

  \<^bold>\<open>Theories.\<close>
  \<^item> \<open>Prelude\<close>: the character types (\<open>nchar = 8 word\<close> for a signed
    \<^verbatim>\<open>char\<close>, \<open>'w word\<close> for \<^verbatim>\<open>wchar_t\<close>, \<open>wchar_win = 16 word\<close> for
    Windows), string literals, the dereference \<open>deref\<close> of an iterator, and
    the cast lemmas the components share (sign extension read as an unsigned
    code, lossless casts).
  \<^item> \<open>Widen\<close>: \<open>widen_char\<close> and \<open>widen\<close>, the conversion
    \<^verbatim>\<open>std::wstring(s.begin(), s.end())\<close> of line 25, a sign extension
    \<open>scast\<close> of each \<^verbatim>\<open>char\<close>.  Lemmas: the exact code units (C5), the
    round trip through truncation (C6), that codes survive exactly for ASCII
    text (C11), and the only code units a widened string can hold (C16).
  \<^item> \<open>Adapters\<close>: the records \<open>exception\<close>, \<open>error_code\<close>,
    \<open>error_category\<close>, \<open>fs_path\<close> of what the adapters observe; the four
    \<^verbatim>\<open>format\<close> overrides \<open>format_string\<close>, \<open>format_exception\<close>,
    \<open>format_error_code\<close>, \<open>format_path\<close>; the argument type \<open>fmt_arg\<close>
    with its dispatch \<open>format_arg\<close>; the abstract specification
    \<open>arg_text\<close>.  The base renderer is a parameter \<open>base\<close> (the interface
    between this repository and the fmt library), so the lemmas hold for any
    renderer, its errors included.  Lemma: refinement of the dispatch by the
    base renderer on \<open>arg_text\<close> (C3).
  \<^item> \<open>Fmt_Engine\<close>: a reference instance of the base renderer
    (\<open>fmt_write_string\<close>: fill, alignment, width, precision on a wide string
    appended to an output buffer), so that the adapters run on concrete
    values; it is library behaviour, not code of this repository.
  \<^item> \<open>Join\<close>: \<open>join_loop\<close> (the \<^verbatim>\<open>for\<close> loop on the accumulator) and
    \<open>join\<close>, beside two specifications: \<open>spec_join\<close>, the contract written in
    the specification (separator after every element), and
    \<open>between_join\<close>, the conventional join.  Lemmas: closed form (C1), exact
    agreement with the specification's contract (C2: only for an empty
    container or separator), the fusion of the first two elements (C8),
    length (C9).  The loop is also modelled as the code writes it, with
    iterators: \<open>join_for\<close> is the \<^verbatim>\<open>for (; begin != end; ++begin)\<close> loop
    over positions with the checked dereference \<open>deref\<close>, and \<open>join_iter\<close>
    the whole function with its \<^verbatim>\<open>begin == end\<close> test and its read of
    \<^verbatim>\<open>*begin++\<close>: the loop returns from every position up to the end (C14),
    and the iterator model is total and equals \<open>join\<close> (C15).  As an
    \<open>inductive\<close> state machine, \<open>join_step\<close> (one iteration) and
    \<open>join_reach\<close> (the states reachable after \<^verbatim>\<open>r = *begin++\<close>), every
    reachable state holds the join of the prefix visited (C18, rule
    induction).  \<open>join_checked\<close> is the loop with the
    \<^verbatim>\<open>std::length_error\<close> that \<^verbatim>\<open>operator+\<close> and \<^verbatim>\<open>operator+=\<close> throw
    past \<^verbatim>\<open>max_size()\<close>, a parameter: the error is raised exactly when the
    result would be too long (C12).
  \<^item> \<open>Towlower\<close>: \<open>towlower_char\<close> (the lambda with its two casts),
    \<open>transform_loop\<close> (the in-place index loop of \<^verbatim>\<open>std::transform\<close>,
    terminating by the measure \<open>length s - i\<close>) and \<open>towlower\<close>; the C
    library's \<^verbatim>\<open>::towlower\<close> is a parameter, \<open>c_towlower\<close> its "C" locale
    and \<open>latin1_towlower\<close> a Unicode locale on the first 256 code points.
    Lemma: the loop equals \<open>map\<close> (C4).
  \<^item> This theory: properties across components.  The adapters run on the
    reference renderer: ASCII text through the narrow-string adapter (C7),
    an exception under \<^verbatim>\<open>{}\<close> (C10), the length written (C13), and the
    precision counting bytes (C20).  The narrow-to-wide conversion composed
    with \<^verbatim>\<open>towlower\<close>: in the "C" locale lowering a widened string is
    widening the lowered bytes (C17), and a non-ASCII byte is never lowered
    once widened under any locale without case mappings on U+FF80--U+FFFF
    (C19).

  \<^bold>\<open>Widths and termination.\<close> \<^verbatim>\<open>char\<close> is 8 bits and signed (MSVC's
  and x86 GCC's default); the width of \<^verbatim>\<open>wchar_t\<close> is a type variable, at
  least 8 bits, with Windows (16 bits) as the concrete instance.
  \<^verbatim>\<open>wint_t\<close> is as wide as \<^verbatim>\<open>wchar_t\<close> on both platforms.  No loop needs
  fuel: \<open>join_loop\<close> and \<open>join_loop_checked\<close> are structural on the
  container and \<open>transform_loop\<close> terminates by its measure.  The iterator
  loop \<open>join_for\<close> is a \<open>partial_function (option)\<close>, since a \<^verbatim>\<open>!=\<close>
  guard started past the end never stops; its termination from every valid
  position is proved as such, by induction on \<open>length c - i\<close> (C14).

  \<^bold>\<open>Findings.\<close> \<^verbatim>\<open>join\<close> writes no separator between the first two
  elements and one after the last: \<^verbatim>\<open>join({"a","b","c"}, ", ")\<close> is
  \<^verbatim>\<open>"ab, c, "\<close>, while the specification states \<^verbatim>\<open>"a, b, c, "\<close> and the
  comment in the source implies \<^verbatim>\<open>"a, b, c"\<close> (C2, C8).  \<^verbatim>\<open>join\<close> is
  not total, as the specification states: it throws
  \<^verbatim>\<open>std::length_error\<close> when the result would exceed
  \<^verbatim>\<open>max_size()\<close> (C12).  The narrow-to-wide conversion sign-extends, so
  bytes 0x80--0xFF become U+FF80--U+FFFF on Windows rather than
  U+0080--U+00FF (C5); in consequence \<^verbatim>\<open>towlower\<close> cannot lower a
  non-ASCII capital that came from a narrow string (C19), and a precision
  \<^verbatim>\<open>{:.p}\<close> on a narrow string keeps \<open>p\<close> bytes, which can split a UTF-8
  character (C20).  The idempotence of \<^verbatim>\<open>towlower\<close> stated by the
  specification holds only when the locale's \<^verbatim>\<open>::towlower\<close> is idempotent.

  \<^bold>\<open>Coverage.\<close> Every line of code of \<^verbatim>\<open>src/src/formatter.h\<close> is
  modelled: the adapters (lines 17--56), \<^verbatim>\<open>join\<close> (69--82) and
  \<^verbatim>\<open>towlower\<close> (91--95).  The remaining lines are the include guard, the
  \<^verbatim>\<open>#include\<close> directives, comments and namespace braces, which have no
  behaviour to model.

  \<^bold>\<open>Not modelled.\<close> The fmt library's parsing of replacement fields, its
  argument binding, its writer loop and its errors, and the debug
  presentation: the adapters' only contract with it is the delegation of
  C3, so the development states nothing about the library's own behaviour
  beyond the reference renderer.  The locale tables of \<^verbatim>\<open>::towlower\<close>
  beyond the "C" locale and the first 256 code points of a Unicode locale,
  and the process-wide locale state it reads; \<^verbatim>\<open>std::bad_alloc\<close>;
  \<^verbatim>\<open>std::filesystem::path\<close> on POSIX, where \<^verbatim>\<open>native()\<close> is narrow and the
  path adapter does not compile.
\<close>

text \<open>C7. An ASCII \<^verbatim>\<open>std::string\<close> formatted through the narrow-string
  adapter renders exactly as the wide string of the same characters
  (zero-extended codes) formatted directly, under any base renderer and any
  specification.\<close>

theorem format_string_ascii:
  assumes "8 \<le> LENGTH('w::len)" and "\<forall>c\<in>set s. uint c < 128"
  shows "format_string (base :: ('f, 'w, 'ctx, 'r) wformatter) f s ctx = base f (map ucast s) ctx"
  using assms by (simp add: format_string_def widen_ascii_ucast)

theorem format_string_ascii_witness:
  "8 \<le> LENGTH(16) \<and>
   format_string fmt_write_string (default_specs :: wchar_win format_specs) (narrow_lit ''abc'') [] =
     fmt_write_string default_specs (map ucast (narrow_lit ''abc'')) []"
proof -
  have h: "\<forall>c\<in>set (narrow_lit ''abc''). uint c < 128" by (simp add: narrow_lit_def)
  show ?thesis
    using h format_string_ascii [where 'w = 16, OF _ h, of fmt_write_string default_specs "[]"] by simp
qed

text \<open>C10. Under \<^verbatim>\<open>{}\<close> an exception whose message is ASCII is rendered
  as exactly its message, as wide characters, appended to the output.\<close>

theorem format_exception_default_ascii:
  assumes "\<forall>c\<in>set (what ex). uint c < 128"
  shows "format_exception fmt_write_string (default_specs :: wchar_win format_specs) ex out =
    out @ map ucast (what ex)"
  using assms by (simp add: format_exception_def format_string_def widen_ascii_ucast)

theorem format_exception_default_ascii_witness:
  "format_exception fmt_write_string (default_specs :: wchar_win format_specs)
     \<lparr>what = narrow_lit ''bad archive''\<rparr> [] = wide_lit ''bad archive''"
proof -
  have h: "\<forall>c\<in>set (what \<lparr>what = narrow_lit ''bad archive''\<rparr>). uint c < 128"
    by (simp add: narrow_lit_def)
  show ?thesis
    using h format_exception_default_ascii [OF h, of "[]"]
    by (simp add: narrow_lit_def wide_lit_def)
qed

text \<open>C13. With no precision, formatting an exception writes
  \<open>max width (length message)\<close> code units: each byte of the message counts
  as one character of the field width.\<close>

theorem format_exception_length:
  assumes "spec_precision sp < 0"
  shows "length (format_exception fmt_write_string (sp :: 'w::len word format_specs) ex out) =
    length out + max (spec_width sp) (length (what ex))"
  using assms by (simp add: format_exception_def format_string_def fmt_write_length shown_size_def)

theorem format_exception_length_witness:
  "spec_precision (default_specs\<lparr>spec_width := 8\<rparr> :: wchar_win format_specs) < 0 \<and>
   length (format_exception fmt_write_string (default_specs\<lparr>spec_width := 8\<rparr> :: wchar_win format_specs)
     \<lparr>what = narrow_lit ''err''\<rparr> (wide_lit ''E: '')) = 11"
proof -
  have h: "spec_precision (default_specs\<lparr>spec_width := 8\<rparr> :: wchar_win format_specs) < 0"
    by (simp add: default_specs_def)
  show ?thesis
    using h format_exception_length [OF h, of "\<lparr>what = narrow_lit ''err''\<rparr>" "wide_lit ''E: ''"]
    by (simp add: narrow_lit_def wide_lit_def)
qed

text \<open>C17. In the "C" locale on Windows, lowering a widened narrow string
  is widening the string lowered byte by byte, for every byte: bytes from
  0x80 on are widened to U+FF80--U+FFFF, which the locale leaves alone, as it
  leaves the bytes themselves.\<close>

theorem towlower_widen_c_locale:
  "towlower (c_towlower :: wchar_win \<Rightarrow> wchar_win) (widen s :: wchar_win list) =
   widen (map c_towlower s)"
proof -
  have step: "(c_towlower (widen_char c :: wchar_win) :: wchar_win) = widen_char (c_towlower c)"
    for c :: nchar
  proof (subst word_uint_eq_iff)
    show "uint (c_towlower (widen_char c :: wchar_win)) = uint (widen_char (c_towlower c) :: wchar_win)"
    proof (cases "0x41 \<le> c \<and> c \<le> 0x5A")
      case True
      then have u: "65 \<le> uint c" "uint c \<le> 90" by (simp_all add: word_le_def)
      have "uint (c + 0x20) = uint c + 32"
        using u by (simp add: uint_word_ariths)
      with u show ?thesis
        by (simp add: c_towlower_def widen_char_def uint_scast_nchar word_le_def uint_word_ariths)
    next
      case False
      then have "\<not> (65 \<le> uint c \<and> uint c \<le> 90)" by (simp add: word_le_def)
      then show ?thesis
        by (auto simp add: c_towlower_def widen_char_def uint_scast_nchar word_le_def)
    qed
  qed
  then show ?thesis
    by (simp add: towlower_def towlower_char_def widen_def)
qed

text \<open>C19. A byte from 0x80 on of a narrow string is never lowered once
  widened: sign extension puts it in U+FF80--U+FFFF, where a locale such as
  Unicode's has no case mapping, so \<^verbatim>\<open>towlower\<close> leaves it unchanged even
  when the byte is a capital letter of the narrow encoding (0xC9, Latin-1
  \<^verbatim>\<open>'E'\<close> with acute accent, stays U+FFC9 instead of becoming U+00E9).\<close>

theorem towlower_keeps_high_bytes:
  assumes "LENGTH('i::len) = LENGTH('w::len)" and "8 \<le> LENGTH('w)"
    and "\<forall>x::'i word. 2 ^ LENGTH('i) - 128 \<le> uint x \<longrightarrow> lower x = x"
    and "i < length s" and "128 \<le> uint (s ! i)"
  shows "towlower lower (widen s :: 'w wstring) ! i = widen s ! i"
proof -
  let ?w = "widen_char (s ! i) :: 'w word"
  have "uint ?w = uint (s ! i) + 2 ^ LENGTH('w) - 256"
    using assms(2,5) by (simp add: widen_char_def uint_scast_nchar)
  moreover have "uint (ucast ?w :: 'i word) = uint ?w"
    using assms(1) by (simp add: uint_up_ucast is_up)
  ultimately have "lower (ucast ?w) = ucast ?w"
    using assms(1,3,5) by simp
  then have "towlower_char lower ?w = ?w"
    using assms(1) by (simp add: towlower_char_def ucast_ucast_up)
  then show ?thesis
    using assms(4) by (simp add: towlower_nth)
qed

theorem towlower_keeps_high_bytes_witness:
  "LENGTH(16) = LENGTH(16) \<and> 8 \<le> LENGTH(16) \<and>
   0 < length [0xC9 :: nchar] \<and> 128 \<le> uint (0xC9 :: nchar) \<and>
   towlower (latin1_towlower :: wchar_win \<Rightarrow> wchar_win) (widen [0xC9] :: wchar_win list) = [0xFFC9] \<and>
   latin1_towlower (0xC9 :: wchar_win) = 0xE9"
proof -
  have h: "\<forall>x::wchar_win. 2 ^ LENGTH(16) - 128 \<le> uint x \<longrightarrow> latin1_towlower x = x"
    by (simp add: latin1_towlower_def word_le_def)
  have "towlower (latin1_towlower :: wchar_win \<Rightarrow> wchar_win) (widen [0xC9] :: wchar_win list) ! 0 =
      (widen [0xC9] :: wchar_win list) ! 0"
    using towlower_keeps_high_bytes [where 'i = 16 and 'w = 16, OF _ _ h, of 0 "[0xC9]"] by simp
  then have "towlower (latin1_towlower :: wchar_win \<Rightarrow> wchar_win) (widen [0xC9] :: wchar_win list) = [0xFFC9]"
    by (simp add: towlower_def widen_def widen_char_def)
  then show ?thesis by (simp add: latin1_towlower_def)
qed

text \<open>C20. Under a precision \<^verbatim>\<open>{:.p}\<close> the narrow-string adapter keeps
  the first \<open>p\<close> bytes of the \<^verbatim>\<open>std::string\<close>, one code unit each: the
  precision counts bytes, so it can cut a multi-byte UTF-8 character in
  half.\<close>

theorem format_string_precision:
  assumes "0 \<le> p"
  shows "format_string fmt_write_string ((default_specs :: 'w::len word format_specs)\<lparr>spec_precision := p\<rparr>) s out =
    out @ map widen_char (take (nat p) s)"
proof -
  let ?sp = "(default_specs :: 'w word format_specs)\<lparr>spec_precision := p\<rparr>"
  have "take (shown_size ?sp (widen s)) (widen s :: 'w wstring) = map widen_char (take (nat p) s)"
    using assms by (simp add: shown_size_def default_specs_def widen_def take_map)
  moreover have "spec_width ?sp \<le> shown_size ?sp (widen s)"
    by (simp add: default_specs_def)
  ultimately show ?thesis
    by (simp add: format_string_def fmt_write_no_width)
qed

theorem format_string_precision_witness:
  "0 \<le> (1::int) \<and>
   format_string fmt_write_string ((default_specs :: wchar_win format_specs)\<lparr>spec_precision := 1\<rparr>)
     [0xC3, 0xA9] [] = [0xFFC3]"
  using format_string_precision [where 'w = 16, of 1 "[0xC3, 0xA9]" "[]"] by (simp add: widen_char_def)

end
